theory Spec2Isabelle
  imports Main "HOL-Library.Word" "HOL-Library.Signed_Division"
begin

unbundle bit_operations_syntax

section \<open>Machine types\<close>

text \<open>
  The driver is built for a 32-bit Arduino core: \<open>uint8_t\<close>, \<open>uint16_t\<close> and
  \<open>uint32_t\<close> are words of that width, and \<open>int\<close> is a 32-bit word that is read
  as two's complement through \<open>sint\<close>. Signed overflow, which C++ leaves undefined,
  wraps around in this model, as it does on the target.
\<close>

type_synonym u8 = "8 word"
type_synonym u16 = "16 word"
type_synonym u32 = "32 word"
type_synonym c_int = "32 word"

text \<open>
  A byte buffer that is handed over by address (\<open>uint8_t *\<close>) is a function from the
  offset to the byte stored there. Only offsets below the length given with the pointer
  are ever touched.
\<close>

type_synonym buffer = "nat \<Rightarrow> u8"

text \<open>The operator \<open>%\<close> of C++ on \<open>int\<close>: the remainder of the division that truncates
  towards zero.\<close>

definition c_rem :: "c_int \<Rightarrow> c_int \<Rightarrow> c_int" where
  "c_rem a b = word_of_int (sint a smod sint b)"

section \<open>What the header declares\<close>

text \<open>
  \<open>CST816S.h\<close> is not among the sources. The constants it defines, the bus address
  of the chip and the values of the enumeration \<open>GESTURE\<close>, are parameters of the
  model; the case labels of a \<open>switch\<close> are constants of type \<open>int\<close>.
\<close>

record header =
  CST816S_ADDRESS :: c_int
  NONE :: c_int
  SWIPE_UP :: c_int
  SWIPE_DOWN :: c_int
  SWIPE_LEFT :: c_int
  SWIPE_RIGHT :: c_int
  SINGLE_CLICK :: c_int
  DOUBLE_CLICK :: c_int
  LONG_PRESS :: c_int

section \<open>The two-wire bus\<close>

text \<open>
  The bus object \<open>TwoWire\<close> belongs to the Arduino core. The model records every call
  the driver makes on it, oldest first, and takes what the bus answers from two streams:
  \<open>status w 0\<close> is what the next \<open>endTransmission\<close> returns (0 for success) and
  \<open>incoming w 0\<close> is what the next \<open>read\<close> returns (\<open>read\<close> returns an \<open>int\<close>,
  \<open>-1\<close> when nothing was received).
\<close>

datatype wire_call =
    BeginTransmission u16
  | WireWrite u8
  | EndTransmission bool
  | RequestFrom u16 u32 bool
  | WireRead

record TwoWire =
  calls :: "wire_call list"
  status :: "nat \<Rightarrow> u8"
  incoming :: "nat \<Rightarrow> int"

definition beginTransmission :: "u16 \<Rightarrow> TwoWire \<Rightarrow> TwoWire" where
  "beginTransmission addr w = w\<lparr>calls := calls w @ [BeginTransmission addr]\<rparr>"

definition Wire_write :: "u8 \<Rightarrow> TwoWire \<Rightarrow> TwoWire" where
  "Wire_write b w = w\<lparr>calls := calls w @ [WireWrite b]\<rparr>"

definition endTransmission :: "bool \<Rightarrow> TwoWire \<Rightarrow> u8 \<times> TwoWire" where
  "endTransmission sendStop w =
     (status w 0,
      w\<lparr>calls := calls w @ [EndTransmission sendStop], status := (\<lambda>k. status w (Suc k))\<rparr>)"

definition requestFrom :: "u16 \<Rightarrow> u32 \<Rightarrow> bool \<Rightarrow> TwoWire \<Rightarrow> TwoWire" where
  "requestFrom addr len sendStop w = w\<lparr>calls := calls w @ [RequestFrom addr len sendStop]\<rparr>"

definition Wire_read :: "TwoWire \<Rightarrow> int \<times> TwoWire" where
  "Wire_read w =
     (incoming w 0, w\<lparr>calls := calls w @ [WireRead], incoming := (\<lambda>k. incoming w (Suc k))\<rparr>)"

section \<open>The driver object\<close>

record data_struct =
  gestureID :: u8
  points :: u8
  event :: u8
  x :: c_int
  y :: c_int
  version :: u8
  versionInfo :: "u8 list"

text \<open>
  The members of the class, without the leading underscore of their names. The types of
  \<open>rotation\<close>, \<open>width\<close> and \<open>height\<close> are those of the arguments stored in them. The
  user callback runs code of the application: it acts on the application's own state
  \<open>'u\<close>, not on the driver object.
\<close>

record 'u CST816S =
  wire :: TwoWire
  sda :: c_int
  scl :: c_int
  rst :: c_int
  irq :: c_int
  rotation :: c_int
  width :: c_int
  height :: c_int
  event_available :: bool
  userISR :: "('u \<Rightarrow> 'u) option"
  data :: data_struct

text \<open>
  The constructors assign five members and bind the bus reference; the callback object
  is default-constructed, hence empty. The other members keep what the object \<open>obj\<close>
  held before.
\<close>

definition CST816S_init :: "c_int \<Rightarrow> c_int \<Rightarrow> c_int \<Rightarrow> c_int \<Rightarrow> TwoWire \<Rightarrow> 'u CST816S \<Rightarrow> 'u CST816S" where
  "CST816S_init sda0 scl0 rst0 irq0 wire0 obj =
     obj\<lparr>wire := wire0, userISR := None, rotation := 0,
         sda := sda0, scl := scl0, rst := rst0, irq := irq0\<rparr>"

definition CST816S_init_rotation ::
  "c_int \<Rightarrow> c_int \<Rightarrow> c_int \<Rightarrow> c_int \<Rightarrow> c_int \<Rightarrow> TwoWire \<Rightarrow> 'u CST816S \<Rightarrow> 'u CST816S" where
  "CST816S_init_rotation sda0 scl0 rst0 irq0 rotation0 wire0 obj =
     obj\<lparr>wire := wire0, userISR := None, rotation := rotation0,
         sda := sda0, scl := scl0, rst := rst0, irq := irq0\<rparr>"

definition setSize :: "c_int \<Rightarrow> c_int \<Rightarrow> 'u CST816S \<Rightarrow> 'u CST816S" where
  "setSize w h s = s\<lparr>width := w, height := h\<rparr>"

definition setRotation :: "c_int \<Rightarrow> 'u CST816S \<Rightarrow> 'u CST816S" where
  "setRotation rotation0 s = s\<lparr>rotation := c_rem rotation0 4\<rparr>"

section \<open>Rotation\<close>

definition rotation90 :: "u8 list" where
  "rotation90 = [0, 0x03, 0x04, 0x02, 0x01]"

definition rotation180 :: "u8 list" where
  "rotation180 = [0, 0x02, 0x01, 0x04, 0x03]"

definition rotation270 :: "u8 list" where
  "rotation270 = [0, 0x04, 0x03, 0x01, 0x02]"

text \<open>The tables are read only behind the guard \<open>1 \<le> gestureID \<le> 4\<close>, inside their
  five entries.\<close>

definition rotateGesture :: "'u CST816S \<Rightarrow> u8 \<Rightarrow> u8" where
  "rotateGesture s g =
     (if g < 1 \<or> g > 4 \<or> rotation s = 0 then g
      else if rotation s = 1 then rotation90 ! unat g
      else if rotation s = 2 then rotation180 ! unat g
      else if rotation s = 3 then rotation270 ! unat g
      else g)"

text \<open>\<open>rotatePoint\<close> updates its two reference arguments; the model returns the pair.\<close>

definition rotatePoint :: "'u CST816S \<Rightarrow> c_int \<times> c_int \<Rightarrow> c_int \<times> c_int" where
  "rotatePoint s p =
     (let oldX = fst p; oldY = snd p in
      if rotation s = 1 then (oldY, width s - 1 - oldX)
      else if rotation s = 2 then (width s - 1 - oldX, height s - 1 - oldY)
      else if rotation s = 3 then (height s - 1 - oldY, oldX)
      else (oldX, oldY))"

section \<open>Bus transactions\<close>

text \<open>The read loop of \<open>i2c_read\<close>: \<open>n\<close> bytes are still to be read and the next one
  goes to offset \<open>i\<close>; the \<open>int\<close> that \<open>read\<close> returns is cut to a byte.\<close>

fun read_bytes :: "nat \<Rightarrow> nat \<Rightarrow> buffer \<Rightarrow> TwoWire \<Rightarrow> buffer \<times> TwoWire" where
  "read_bytes 0 i buf w = (buf, w)"
| "read_bytes (Suc n) i buf w =
     (case Wire_read w of (v, w') \<Rightarrow> read_bytes n (Suc i) (buf(i := word_of_int v)) w')"

text \<open>The result is the status byte (\<open>return -1\<close> in a \<open>uint8_t\<close> is 255), the buffer
  and the bus.\<close>

definition i2c_read :: "u16 \<Rightarrow> u8 \<Rightarrow> buffer \<Rightarrow> u32 \<Rightarrow> TwoWire \<Rightarrow> u8 \<times> buffer \<times> TwoWire" where
  "i2c_read addr reg_addr reg_data len w =
     (let w1 = beginTransmission addr w;
          w2 = Wire_write reg_addr w1;
          (st, w3) = endTransmission True w2
      in if st \<noteq> 0 then (- 1, reg_data, w3)
         else let w4 = requestFrom addr len True w3;
                  (buf, w5) = read_bytes (unat len) 0 reg_data w4
              in (0, buf, w5))"

fun write_bytes :: "nat \<Rightarrow> nat \<Rightarrow> buffer \<Rightarrow> TwoWire \<Rightarrow> TwoWire" where
  "write_bytes 0 i buf w = w"
| "write_bytes (Suc n) i buf w = write_bytes n (Suc i) buf (Wire_write (buf i) w)"

definition i2c_write :: "u8 \<Rightarrow> u8 \<Rightarrow> buffer \<Rightarrow> u32 \<Rightarrow> TwoWire \<Rightarrow> u8 \<times> TwoWire" where
  "i2c_write addr reg_addr reg_data len w =
     (let w1 = beginTransmission (ucast addr) w;
          w2 = Wire_write reg_addr w1;
          w3 = write_bytes (unat len) 0 reg_data w2;
          (st, w4) = endTransmission True w3
      in if st \<noteq> 0 then (- 1, w4) else (0, w4))"

section \<open>Reading a touch\<close>

text \<open>
  The array \<open>data_raw\<close> is a local variable without an initialiser: what it holds when
  \<open>read_touch\<close> starts is the argument \<open>data_raw0\<close>. The value \<open>i2c_read\<close> returns
  is dropped. A byte is promoted to \<open>int\<close> before \<open>&\<close>, \<open><<\<close>, \<open>>>\<close> and \<open>+\<close>.
\<close>

definition read_touch :: "header \<Rightarrow> buffer \<Rightarrow> 'u CST816S \<Rightarrow> 'u CST816S" where
  "read_touch h data_raw0 s =
     (let (ret, data_raw, w') = i2c_read (ucast (CST816S_ADDRESS h)) 0x01 data_raw0 6 (wire s);
          p = rotatePoint s
                (push_bit 8 ((ucast (data_raw 2) :: c_int) AND 0xF) + ucast (data_raw 3),
                 push_bit 8 ((ucast (data_raw 4) :: c_int) AND 0xF) + ucast (data_raw 5))
      in s\<lparr>wire := w',
           data := (data s)\<lparr>gestureID := rotateGesture s (data_raw 0),
                            points := data_raw 1,
                            event := ucast (drop_bit 6 (ucast (data_raw 2) :: c_int)),
                            x := fst p,
                            y := snd p\<rparr>\<rparr>)"

definition handleISR :: "'u CST816S \<Rightarrow> 'u \<Rightarrow> 'u CST816S \<times> 'u" where
  "handleISR s u =
     (s\<lparr>event_available := True\<rparr>, (case userISR s of None \<Rightarrow> u | Some f \<Rightarrow> f u))"

definition available :: "header \<Rightarrow> buffer \<Rightarrow> 'u CST816S \<Rightarrow> bool \<times> 'u CST816S" where
  "available h data_raw0 s =
     (if event_available s
      then (True, (read_touch h data_raw0 s)\<lparr>event_available := False\<rparr>)
      else (False, s))"

section \<open>Configuration and names\<close>

definition set_auto_sleep_time :: "header \<Rightarrow> c_int \<Rightarrow> 'u CST816S \<Rightarrow> 'u CST816S" where
  "set_auto_sleep_time h seconds s =
     (let seconds' = (if seconds <s 1 then 1 else if 255 <s seconds then 255 else seconds);
          sleepTime = (ucast seconds' :: u8);
          (ret, w') = i2c_write (ucast (CST816S_ADDRESS h)) 0xF9 (\<lambda>_. sleepTime) 1 (wire s)
      in s\<lparr>wire := w'\<rparr>)"

definition gesture :: "header \<Rightarrow> 'u CST816S \<Rightarrow> string" where
  "gesture h s =
     (let g = (ucast (gestureID (data s)) :: c_int) in
      if g = NONE h then ''NONE''
      else if g = SWIPE_DOWN h then ''SWIPE DOWN''
      else if g = SWIPE_UP h then ''SWIPE UP''
      else if g = SWIPE_LEFT h then ''SWIPE LEFT''
      else if g = SWIPE_RIGHT h then ''SWIPE RIGHT''
      else if g = SINGLE_CLICK h then ''SINGLE CLICK''
      else if g = DOUBLE_CLICK h then ''DOUBLE CLICK''
      else if g = LONG_PRESS h then ''LONG PRESS''
      else ''UNKNOWN'')"


section \<open>Scenarios and values for concrete evaluation\<close>

text \<open>A burst of \<open>n\<close> interrupts, and a run of polls, each with its own contents of
  the local array.\<close>

fun isr_burst :: "nat \<Rightarrow> 'u CST816S \<Rightarrow> 'u \<Rightarrow> 'u CST816S \<times> 'u" where
  "isr_burst 0 s u = (s, u)"
| "isr_burst (Suc n) s u = (case handleISR s u of (s', u') \<Rightarrow> isr_burst n s' u')"

fun polls :: "header \<Rightarrow> buffer list \<Rightarrow> 'u CST816S \<Rightarrow> bool list \<times> 'u CST816S" where
  "polls h [] s = ([], s)"
| "polls h (b # bs) s =
     (case available h b s of (r, s') \<Rightarrow>
        (case polls h bs s' of (rs, s'') \<Rightarrow> (r # rs, s'')))"

text \<open>The byte that the \<open>i\<close>-th coming \<open>read\<close> of the bus delivers.\<close>

definition rx_byte :: "TwoWire \<Rightarrow> nat \<Rightarrow> u8" where
  "rx_byte w i = word_of_int (incoming w i)"

text \<open>The coordinate as the specification words it: the low four bits of the first
  byte, shifted left by eight, or-ed with the second byte.\<close>

definition spec_coord :: "u8 \<Rightarrow> u8 \<Rightarrow> c_int" where
  "spec_coord hi lo = push_bit 8 (ucast hi AND 0xF) OR ucast lo"

text \<open>One assignment of the constants of the header, a bus that acknowledges and
  delivers zeros, one that never acknowledges, one that delivers the touch block
  \<open>02 01 30 50 20 10\<close>, and a driver object with every member zero.\<close>

definition header0 :: header where
  "header0 = \<lparr>CST816S_ADDRESS = 0x15, NONE = 0x00, SWIPE_UP = 0x01, SWIPE_DOWN = 0x02,
     SWIPE_LEFT = 0x03, SWIPE_RIGHT = 0x04, SINGLE_CLICK = 0x05, DOUBLE_CLICK = 0x0B,
     LONG_PRESS = 0x0C\<rparr>"

definition wire0 :: TwoWire where
  "wire0 = \<lparr>calls = [], status = (\<lambda>_. 0), incoming = (\<lambda>_. 0)\<rparr>"

definition wire_nack :: TwoWire where
  "wire_nack = \<lparr>calls = [], status = (\<lambda>_. 2), incoming = (\<lambda>_. 0)\<rparr>"

definition wire_fixture :: TwoWire where
  "wire_fixture = \<lparr>calls = [], status = (\<lambda>_. 0),
     incoming = (\<lambda>k. if k < 6 then [0x02, 0x01, 0x30, 0x50, 0x20, 0x10] ! k else 0)\<rparr>"

definition driver0 :: "unit CST816S" where
  "driver0 = \<lparr>wire = wire0, sda = 0, scl = 0, rst = 0, irq = 0, rotation = 0,
     width = 0, height = 0, event_available = False, userISR = None,
     data = \<lparr>gestureID = 0, points = 0, event = 0, x = 0, y = 0, version = 0,
              versionInfo = [0, 0, 0]\<rparr>\<rparr>"

text \<open>Two contents of the local array of \<open>read_touch\<close>, and the driver objects at
  which the model is evaluated below.\<close>

definition stack0 :: buffer where
  "stack0 = (\<lambda>_. 0)"

definition stack_ff :: buffer where
  "stack_ff = (\<lambda>_. 0xFF)"

definition driver_fixture :: "unit CST816S" where
  "driver_fixture = driver0\<lparr>wire := wire_fixture, event_available := True\<rparr>"

definition driver_fixture_rot1 :: "unit CST816S" where
  "driver_fixture_rot1 =
     driver0\<lparr>wire := wire_fixture, rotation := 1, width := 240, height := 240,
             event_available := True\<rparr>"

definition driver_wide :: "unit CST816S" where
  "driver_wide = driver0\<lparr>rotation := 1, width := 5000, height := 5000, event_available := True\<rparr>"

definition driver_240x280 :: "unit CST816S" where
  "driver_240x280 = driver0\<lparr>width := 240, height := 280\<rparr>"

definition driver_nack :: "unit CST816S" where
  "driver_nack = driver0\<lparr>wire := wire_nack, event_available := True\<rparr>"

section \<open>Auxiliary facts\<close>

subsection \<open>Words\<close>

lemma swipe_range:
  fixes g :: u8
  shows "\<not> (g < 1 \<or> g > 4) \<longleftrightarrow> g \<in> {1, 2, 3, 4}"
proof -
  have "\<not> (g < 1 \<or> g > 4) \<longleftrightarrow> 1 \<le> unat g \<and> unat g \<le> 4"
    by (simp add: word_less_nat_alt not_less Suc_le_eq)
  also have "\<dots> \<longleftrightarrow> unat g = 1 \<or> unat g = 2 \<or> unat g = 3 \<or> unat g = 4"
    by arith
  also have "\<dots> \<longleftrightarrow> g \<in> {1, 2, 3, 4}"
    by (simp add: word_unat_eq_iff)
  finally show ?thesis .
qed

lemma ucast_byte_of_sint:
  fixes a :: c_int
  shows "(ucast a :: u8) = word_of_int (sint a)"
  by (rule bit_word_eqI) (simp add: bit_simps)

lemma clamp_byte:
  fixes seconds :: c_int
  shows "(ucast (if seconds <s 1 then 1 else if 255 <s seconds then 255 else seconds) :: u8)
           = word_of_int (min (max (sint seconds) 1) 255)"
proof -
  consider "sint seconds < 1" | "255 < sint seconds" | "1 \<le> sint seconds" "sint seconds \<le> 255"
    by linarith
  then show ?thesis
  proof cases
    case 1 then show ?thesis by (simp add: word_sless_alt)
  next
    case 2 then show ?thesis by (simp add: word_sless_alt)
  next
    case 3 then show ?thesis by (simp add: word_sless_alt ucast_byte_of_sint)
  qed
qed

lemma uint_clamp: "uint (word_of_int (min (max k 1) 255) :: u8) = min (max k 1) 255"
proof -
  have "0 \<le> min (max k 1) 255" "min (max k 1) 255 < 2 ^ 8" by simp_all
  then show ?thesis by (simp add: uint_word_of_int take_bit_int_eq_self)
qed

lemma sint_of_int_small:
  "- 2147483648 \<le> k \<Longrightarrow> k < 2147483648 \<Longrightarrow> sint (word_of_int k :: c_int) = k"
  by (simp add: signed_of_int signed_take_bit_int_eq_self)

lemma smod_4_range: "- 3 \<le> (k::int) smod 4 \<and> k smod 4 \<le> 3"
proof -
  have "0 \<le> \<bar>k\<bar> mod 4" "\<bar>k\<bar> mod 4 < 4" by simp_all
  then show ?thesis
    unfolding signed_modulo_int_def by (cases "0 < k"; cases "k = 0"; simp add: sgn_if; linarith)
qed

lemma sint_c_rem_4: "sint (c_rem n 4) = sint n smod 4"
proof -
  have "- 2147483648 \<le> sint n smod 4" "sint n smod 4 < 2147483648"
    using smod_4_range[of "sint n"] by linarith+
  then show ?thesis by (simp add: c_rem_def sint_of_int_small)
qed

lemma c_rem_4_nonneg:
  fixes n :: c_int
  assumes "0 \<le> sint n"
  shows "c_rem n 4 = word_of_int (sint n mod 4)" and "c_rem n 4 \<in> {0, 1, 2, 3}"
proof -
  show eq: "c_rem n 4 = word_of_int (sint n mod 4)"
    using assms by (simp add: c_rem_def signed_modulo_int_def sgn_if)
  have "0 \<le> sint n mod 4" "sint n mod 4 < 4" by simp_all
  then have "sint n mod 4 = 0 \<or> sint n mod 4 = 1 \<or> sint n mod 4 = 2 \<or> sint n mod 4 = 3"
    by linarith
  then show "c_rem n 4 \<in> {0, 1, 2, 3}"
    unfolding eq by (elim disjE) simp_all
qed

lemma coord_value:
  fixes b c :: u8
  shows "push_bit 8 ((ucast b :: c_int) AND 0xF) + ucast c =
           word_of_int (256 * (uint b mod 16) + uint c)"
proof -
  have m: "(0xF :: c_int) = mask 4" by (simp add: mask_eq_exp_minus_1)
  have "uint b < 2 ^ 32" using uint_bounded[of b] by simp
  then have "uint (ucast b :: c_int) = uint b"
    by (simp add: unsigned_ucast_eq take_bit_int_eq_self)
  then have "(ucast b :: c_int) AND 0xF = word_of_int (uint b mod 16)"
    unfolding m by (simp add: and_mask_mod_2p)
  moreover have "(ucast c :: c_int) = word_of_int (uint c)" by simp
  ultimately show ?thesis
    by (simp add: push_bit_eq_mult)
qed

lemma coord_sint:
  fixes b c :: u8
  shows "sint (push_bit 8 ((ucast b :: c_int) AND 0xF) + ucast c) = 256 * (uint b mod 16) + uint c"
proof -
  have "uint c < 256" using uint_bounded[of c] by simp
  moreover have "0 \<le> uint c" by simp
  moreover have "0 \<le> uint b mod 16" "uint b mod 16 < 16" by simp_all
  ultimately have "- 2147483648 \<le> 256 * (uint b mod 16) + uint c"
    "256 * (uint b mod 16) + uint c < 2147483648" by linarith+
  then show ?thesis
    unfolding coord_value by (rule sint_of_int_small)
qed

lemma coord_range:
  fixes b c :: u8
  shows "0 \<le> sint (push_bit 8 ((ucast b :: c_int) AND 0xF) + ucast c)"
    and "sint (push_bit 8 ((ucast b :: c_int) AND 0xF) + ucast c) \<le> 4095"
proof -
  have "uint c < 256" using uint_bounded[of c] by simp
  moreover have "0 \<le> uint c" by simp
  moreover have "0 \<le> uint b mod 16" "uint b mod 16 < 16" by simp_all
  ultimately show "0 \<le> sint (push_bit 8 ((ucast b :: c_int) AND 0xF) + ucast c)"
    and "sint (push_bit 8 ((ucast b :: c_int) AND 0xF) + ucast c) \<le> 4095"
    unfolding coord_sint by linarith+
qed

text \<open>The source adds where the specification or-s: the two summands share no bit.\<close>

lemma coord_or:
  fixes b c :: u8
  shows "push_bit 8 ((ucast b :: c_int) AND 0xF) + ucast c = spec_coord b c"
  unfolding spec_coord_def
  by (rule disjunctive_add) (auto simp add: bit_simps dest: bit_imp_le_length)

lemma event_bits:
  fixes b :: u8
  shows "(ucast (drop_bit 6 (ucast b :: c_int)) :: u8) = drop_bit 6 b"
  by (rule bit_word_eqI) (auto simp add: bit_simps)

subsection \<open>The bus\<close>

lemma fst_read_bytes:
  "fst (read_bytes n i buf w) j =
     (if i \<le> j \<and> j < i + n then word_of_int (incoming w (j - i)) else buf j)"
proof (induction n arbitrary: i buf w)
  case 0
  then show ?case by auto
next
  case (Suc n)
  show ?case
    by (auto simp add: Wire_read_def Suc Suc_diff_Suc)
qed

lemma i2c_read_nack:
  "status w 0 \<noteq> 0 \<Longrightarrow>
   i2c_read addr reg buf len w =
     (255, buf, w\<lparr>calls := calls w @ [BeginTransmission addr, WireWrite reg, EndTransmission True],
                  status := (\<lambda>k. status w (Suc k))\<rparr>)"
  by (simp add: i2c_read_def endTransmission_def Wire_write_def beginTransmission_def)

lemma i2c_read_ack:
  "status w 0 = 0 \<Longrightarrow>
   fst (i2c_read addr reg buf 6 w) = 0 \<and>
   fst (snd (i2c_read addr reg buf 6 w)) j = (if j < 6 then rx_byte w j else buf j)"
  by (simp add: i2c_read_def endTransmission_def Wire_write_def beginTransmission_def
      requestFrom_def case_prod_beta fst_read_bytes rx_byte_def)

lemma i2c_write_calls_1:
  "calls (snd (i2c_write addr reg buf 1 w)) =
     calls w @ [BeginTransmission (ucast addr), WireWrite reg, WireWrite (buf 0),
                EndTransmission True]"
  by (simp add: i2c_write_def Let_def endTransmission_def Wire_write_def beginTransmission_def
      split: prod.splits)

lemma status_write_bytes: "status (write_bytes n i buf w) = status w"
  by (induction n arbitrary: i w) (simp_all add: Wire_write_def)

lemma i2c_write_status:
  "fst (i2c_write addr reg buf len w) = (if status w 0 \<noteq> 0 then 255 else 0)"
  by (simp add: i2c_write_def Let_def endTransmission_def status_write_bytes Wire_write_def
      beginTransmission_def)

subsection \<open>The driver\<close>

lemma read_touch_fields:
  assumes "i2c_read (ucast (CST816S_ADDRESS h)) 0x01 b 6 (wire s) = (ret, raw, w')"
  shows "gestureID (data (read_touch h b s)) = rotateGesture s (raw 0)"
    and "points (data (read_touch h b s)) = raw 1"
    and "event (data (read_touch h b s)) = drop_bit 6 (raw 2)"
    and "(x (data (read_touch h b s)), y (data (read_touch h b s))) =
           rotatePoint s (spec_coord (raw 2) (raw 3), spec_coord (raw 4) (raw 5))"
    and "version (data (read_touch h b s)) = version (data s)"
    and "versionInfo (data (read_touch h b s)) = versionInfo (data s)"
    and "wire (read_touch h b s) = w'"
  using assms
  by (simp_all add: read_touch_def Let_def event_bits coord_or del: push_bit_and)

lemma read_touch_event_available: "event_available (read_touch h b s) = event_available s"
  by (simp add: read_touch_def Let_def split: prod.splits)

lemma polls_idle: "\<not> event_available s \<Longrightarrow> polls h bs s = (replicate (length bs) False, s)"
  by (induction bs) (simp_all add: available_def)

lemma isr_burst_flag: "0 < n \<Longrightarrow> event_available (fst (isr_burst n s u))"
proof (induction n arbitrary: s u)
  case 0
  then show ?case by simp
next
  case (Suc n)
  show ?case
  proof (cases n)
    case 0
    then show ?thesis by (simp add: handleISR_def)
  next
    case (Suc m)
    then show ?thesis
      using Suc.IH[of "fst (handleISR s u)" "snd (handleISR s u)"]
      by (simp add: case_prod_beta)
  qed
qed

lemma rotatePoint_unrotated:
  "rotation s \<notin> {1, 2, 3} \<Longrightarrow> rotatePoint s p = p"
  by (simp add: rotatePoint_def)

lemma rotatePoint_range:
  assumes "0 \<le> sint px" "sint px \<le> 4095" "0 \<le> sint py" "sint py \<le> 4095"
    and "rotation s \<notin> {1, 2, 3} \<or>
         (0 \<le> sint (width s) \<and> sint (width s) \<le> 4096 \<and>
          0 \<le> sint (height s) \<and> sint (height s) \<le> 4096)"
  shows "sint (fst (rotatePoint s (px, py))) \<le> 4095 \<and>
         sint (snd (rotatePoint s (px, py))) \<le> 4095"
proof (cases "rotation s \<in> {1, 2, 3}")
  case False
  then show ?thesis using assms by (simp add: rotatePoint_unrotated)
next
  case True
  with assms(5) have wh: "0 \<le> sint (width s)" "sint (width s) \<le> 4096"
    "0 \<le> sint (height s)" "sint (height s) \<le> 4096" by auto
  have sub: "sint (a - 1 - b) = sint a - 1 - sint b"
    if "0 \<le> sint a" "sint a \<le> 4096" "0 \<le> sint b" "sint b \<le> 4095" for a b :: c_int
  proof -
    have "- 2147483648 \<le> sint a - 1" "sint a - 1 < 2147483648" using that by linarith+
    then have 1: "sint (a - 1) = sint a - 1"
      by (simp add: sint_word_ariths signed_take_bit_int_eq_self)
    have "- 2147483648 \<le> sint a - 1 - sint b" "sint a - 1 - sint b < 2147483648"
      using that by linarith+
    then show ?thesis
      using 1 sint_word_diff[of "a - 1" b] by (simp add: signed_take_bit_int_eq_self)
  qed
  show ?thesis
    using True assms(1-4) wh sub[of "width s" px] sub[of "height s" py]
    by (auto simp add: rotatePoint_def)
qed

lemma available_ack_fields:
  assumes "event_available s" and "status (wire s) 0 = 0"
  shows "gestureID (data (snd (available h b s))) = rotateGesture s (rx_byte (wire s) 0)"
    and "points (data (snd (available h b s))) = rx_byte (wire s) 1"
    and "event (data (snd (available h b s))) = drop_bit 6 (rx_byte (wire s) 2)"
    and "(x (data (snd (available h b s))), y (data (snd (available h b s)))) =
           rotatePoint s (spec_coord (rx_byte (wire s) 2) (rx_byte (wire s) 3),
                          spec_coord (rx_byte (wire s) 4) (rx_byte (wire s) 5))"
proof -
  obtain ret raw w' where
    rd: "i2c_read (ucast (CST816S_ADDRESS h)) 0x01 b 6 (wire s) = (ret, raw, w')"
    by (cases "i2c_read (ucast (CST816S_ADDRESS h)) 0x01 b 6 (wire s)") auto
  have raw: "raw j = (if j < 6 then rx_byte (wire s) j else b j)" for j
    using i2c_read_ack[where w = "wire s" and j = j and buf = b and reg = "0x01"
        and addr = "ucast (CST816S_ADDRESS h)", OF assms(2)] rd
    by simp
  have av: "snd (available h b s) = (read_touch h b s)\<lparr>event_available := False\<rparr>"
    using assms(1) by (simp add: available_def)
  show "gestureID (data (snd (available h b s))) = rotateGesture s (rx_byte (wire s) 0)"
    using read_touch_fields(1)[OF rd] by (simp add: av raw)
  show "points (data (snd (available h b s))) = rx_byte (wire s) 1"
    using read_touch_fields(2)[OF rd] by (simp add: av raw)
  show "event (data (snd (available h b s))) = drop_bit 6 (rx_byte (wire s) 2)"
    using read_touch_fields(3)[OF rd] by (simp add: av raw)
  show "(x (data (snd (available h b s))), y (data (snd (available h b s)))) =
           rotatePoint s (spec_coord (rx_byte (wire s) 2) (rx_byte (wire s) 3),
                          spec_coord (rx_byte (wire s) 4) (rx_byte (wire s) 5))"
    using read_touch_fields(4)[OF rd] by (simp add: av raw)
qed

lemma spec_coord_range: "0 \<le> sint (spec_coord hi lo) \<and> sint (spec_coord hi lo) \<le> 4095"
  using coord_range[of hi lo] unfolding coord_or by blast

lemma available_xy_source:
  assumes "event_available s"
  shows "\<exists>hx lx hy ly.
           (x (data (snd (available h b s))), y (data (snd (available h b s)))) =
             rotatePoint s (spec_coord hx lx, spec_coord hy ly)"
proof -
  obtain ret raw w' where
    rd: "i2c_read (ucast (CST816S_ADDRESS h)) 0x01 b 6 (wire s) = (ret, raw, w')"
    by (cases "i2c_read (ucast (CST816S_ADDRESS h)) 0x01 b 6 (wire s)") auto
  have av: "snd (available h b s) = (read_touch h b s)\<lparr>event_available := False\<rparr>"
    using assms by (simp add: available_def)
  show ?thesis
    using read_touch_fields(4)[OF rd] unfolding av by auto
qed

section \<open>The availability flag\<close>

text \<open>
  Claim C2. The availability flag is a mailbox with one slot. Every firing of the
  interrupt leaves the flag set, so after a burst of one or more firings it is simply
  set. A poll returns true exactly when the flag was set before it, and the flag is
  clear after every poll. Hence a burst of at least one interrupt followed by any
  number of polls makes the first poll return true and every later one false.
\<close>

theorem single_slot_mailbox:
  "event_available (fst (handleISR s u)) \<and>
   (0 < n \<longrightarrow> event_available (fst (isr_burst n s u))) \<and>
   fst (available h b s) = event_available s \<and>
   \<not> event_available (snd (available h b s)) \<and>
   (0 < n \<longrightarrow>
      fst (polls h (b # bs) (fst (isr_burst n s u))) = True # replicate (length bs) False)"
proof -
  have cleared: "\<not> event_available (snd (available h b t))" for t :: "'a CST816S"
    by (simp add: available_def read_touch_event_available)
  have result: "fst (available h b t) = event_available t" for t :: "'a CST816S"
    by (simp add: available_def)
  have once: "fst (polls h (b # bs) t) = True # replicate (length bs) False"
    if "event_available t" for t :: "'a CST816S"
    using that cleared[of t] result[of t] polls_idle[of "snd (available h b t)" h bs]
    by (simp add: case_prod_beta)
  show ?thesis
    using cleared result once isr_burst_flag[of n s u] by (simp add: handleISR_def)
qed

theorem single_slot_mailbox_witness:
  "(0::nat) < 3 \<and>
   event_available (fst (isr_burst 3 driver0 ())) \<and>
   fst (polls header0 [stack0, stack0, stack0] (fst (isr_burst 3 driver0 ()))) =
     [True, False, False]"
  using single_slot_mailbox[of driver0 "()" 3 header0 stack0 "[stack0, stack0]"]
  by simp

text \<open>
  Claim C10. When the availability flag is not set, \<open>available\<close> returns false and
  changes nothing: the bus, with the record of the calls made on it, every field of the
  touch event and the flag itself are what they were.
\<close>

theorem available_without_event:
  "\<not> event_available s \<Longrightarrow> available h b s = (False, s)"
  by (simp add: available_def)

theorem available_without_event_witness:
  "\<not> event_available driver0 \<and> available header0 stack0 driver0 = (False, driver0)"
proof -
  have idle: "\<not> event_available driver0" by (simp add: driver0_def)
  show ?thesis using idle available_without_event[OF idle] by simp
qed

section \<open>Gestures\<close>

text \<open>
  Claim C9. Whatever gesture identifier is stored, \<open>gesture\<close> returns one of the nine
  strings NONE, SWIPE DOWN, SWIPE UP, SWIPE LEFT, SWIPE RIGHT, SINGLE CLICK, DOUBLE
  CLICK, LONG PRESS and UNKNOWN, and it returns UNKNOWN for every identifier that is
  not a value of the enumeration.
\<close>

theorem gesture_names:
  "gesture h s \<in> {''NONE'', ''SWIPE DOWN'', ''SWIPE UP'', ''SWIPE LEFT'', ''SWIPE RIGHT'',
       ''SINGLE CLICK'', ''DOUBLE CLICK'', ''LONG PRESS'', ''UNKNOWN''} \<and>
   (ucast (gestureID (data s)) \<notin> {NONE h, SWIPE_UP h, SWIPE_DOWN h, SWIPE_LEFT h,
        SWIPE_RIGHT h, SINGLE_CLICK h, DOUBLE_CLICK h, LONG_PRESS h} \<longrightarrow>
      gesture h s = ''UNKNOWN'')"
  by (simp add: gesture_def Let_def)

theorem gesture_names_witness:
  "(ucast (7 :: u8) :: c_int) \<notin> {NONE header0, SWIPE_UP header0, SWIPE_DOWN header0,
       SWIPE_LEFT header0, SWIPE_RIGHT header0, SINGLE_CLICK header0, DOUBLE_CLICK header0,
       LONG_PRESS header0} \<and>
   gesture header0 (driver0\<lparr>data := (data driver0)\<lparr>gestureID := 7\<rparr>\<rparr>) = ''UNKNOWN''"
proof -
  have out: "(ucast (gestureID (data (driver0\<lparr>data := (data driver0)\<lparr>gestureID := 7\<rparr>\<rparr>))) :: c_int)
      \<notin> {NONE header0, SWIPE_UP header0, SWIPE_DOWN header0, SWIPE_LEFT header0,
          SWIPE_RIGHT header0, SINGLE_CLICK header0, DOUBLE_CLICK header0, LONG_PRESS header0}"
    by (simp add: header0_def)
  from out gesture_names[of header0 "driver0\<lparr>data := (data driver0)\<lparr>gestureID := 7\<rparr>\<rparr>"]
  show ?thesis by simp
qed

text \<open>
  Claim C4. With rotation 0 \<open>rotateGesture\<close> returns every identifier unchanged; an
  identifier that is not one of the four swipes 1, 2, 3, 4 is returned unchanged under
  every rotation; and under each of the rotations 1, 2 and 3 \<open>rotateGesture\<close> maps the
  set of the four swipes one-to-one onto itself.
\<close>

theorem rotateGesture_permutes_swipes:
  "(rotation s = 0 \<longrightarrow> rotateGesture s g = g) \<and>
   (g \<notin> {1, 2, 3, 4} \<longrightarrow> rotateGesture s g = g) \<and>
   (rotation s \<in> {1, 2, 3} \<longrightarrow> bij_betw (rotateGesture s) {1, 2, 3, 4} {1, 2, 3, 4})"
proof -
  have identity: "rotation s = 0 \<longrightarrow> rotateGesture s g = g"
    by (simp add: rotateGesture_def)
  have fixed: "g \<notin> {1, 2, 3, 4} \<longrightarrow> rotateGesture s g = g"
    using swipe_range[of g] by (auto simp: rotateGesture_def)
  have bijective: "bij_betw (rotateGesture s) {1, 2, 3, 4} {1, 2, 3, 4}"
    if "rotation s \<in> {1, 2, 3}"
    using that
    by (auto simp: bij_betw_def inj_on_def rotateGesture_def rotation90_def rotation180_def
        rotation270_def)
  show ?thesis using identity fixed bijective by blast
qed

theorem rotateGesture_permutes_swipes_witness:
  "rotation (driver0\<lparr>rotation := 1\<rparr>) \<in> {1, 2, 3} \<and>
   (5 :: u8) \<notin> {1, 2, 3, 4} \<and>
   rotateGesture (driver0\<lparr>rotation := 1\<rparr>) 5 = 5 \<and>
   bij_betw (rotateGesture (driver0\<lparr>rotation := 1\<rparr>)) {1, 2, 3, 4} {1, 2, 3, 4} \<and>
   rotation driver0 = 0 \<and> rotateGesture driver0 2 = 2"
  using rotateGesture_permutes_swipes[of "driver0\<lparr>rotation := 1\<rparr>" 5]
    rotateGesture_permutes_swipes[of driver0 2]
  by (simp add: driver0_def)

section \<open>Automatic sleep\<close>

text \<open>
  Claim C7. For every argument, \<open>set_auto_sleep_time\<close> makes one write transaction
  that sends the register address 0xF9 followed by exactly one byte, and that byte is
  the argument clamped to the range from 1 to 255. For the argument 0 the byte is 1, for
  300 it is 255.
\<close>

theorem set_auto_sleep_time_clamps:
  "calls (wire (set_auto_sleep_time h seconds s)) =
     calls (wire s) @
       [BeginTransmission (ucast (ucast (CST816S_ADDRESS h) :: u8)), WireWrite 0xF9,
        WireWrite (word_of_int (min (max (sint seconds) 1) 255)), EndTransmission True] \<and>
   uint (word_of_int (min (max (sint seconds) 1) 255) :: u8) = min (max (sint seconds) 1) 255 \<and>
   calls (wire (set_auto_sleep_time h 0 s)) =
     calls (wire s) @
       [BeginTransmission (ucast (ucast (CST816S_ADDRESS h) :: u8)), WireWrite 0xF9,
        WireWrite 1, EndTransmission True] \<and>
   calls (wire (set_auto_sleep_time h 300 s)) =
     calls (wire s) @
       [BeginTransmission (ucast (ucast (CST816S_ADDRESS h) :: u8)), WireWrite 0xF9,
        WireWrite 255, EndTransmission True]"
proof -
  have trace: "calls (wire (set_auto_sleep_time h k s)) =
     calls (wire s) @
       [BeginTransmission (ucast (ucast (CST816S_ADDRESS h) :: u8)), WireWrite 0xF9,
        WireWrite (word_of_int (min (max (sint k) 1) 255)), EndTransmission True]" for k
  proof -
    have "wire (set_auto_sleep_time h k s) =
        snd (i2c_write (ucast (CST816S_ADDRESS h)) 0xF9
              (\<lambda>_. ucast (if k <s 1 then 1 else if 255 <s k then 255 else k)) 1 (wire s))"
      by (simp add: set_auto_sleep_time_def Let_def case_prod_beta)
    then show ?thesis
      by (simp only: i2c_write_calls_1 clamp_byte)
  qed
  show ?thesis
    using trace[of seconds] trace[of 0] trace[of 300] uint_clamp[of "sint seconds"]
    by simp
qed

section \<open>Decoding the touch block\<close>

text \<open>
  Claim C1, as amended. When a poll finds the flag set and the bus acknowledges, the six
  bytes read from register 0x01 are decoded as follows: the gesture is \<open>rotateGesture\<close>
  of byte 0, the point count is byte 1, the event kind is byte 2 shifted right by six,
  and the stored pair (x, y) is \<open>rotatePoint\<close> applied to the pair of
  ((byte 2 AND 0xF) shifted left by 8) OR byte 3 and ((byte 4 AND 0xF) shifted left by 8)
  OR byte 5. When the rotation is none of 1, 2, 3 the stored x and y are these two
  values themselves; with rotation 0 the bytes 02 01 30 50 20 10 give gesture 2, one
  point, event kind 0, x = 80 and y = 16.
\<close>

theorem poll_decodes_touch_block:
  assumes "event_available s" and "status (wire s) 0 = 0"
  shows "gestureID (data (snd (available h b s))) = rotateGesture s (rx_byte (wire s) 0) \<and>
         points (data (snd (available h b s))) = rx_byte (wire s) 1 \<and>
         event (data (snd (available h b s))) = drop_bit 6 (rx_byte (wire s) 2) \<and>
         (x (data (snd (available h b s))), y (data (snd (available h b s)))) =
            rotatePoint s (spec_coord (rx_byte (wire s) 2) (rx_byte (wire s) 3),
                           spec_coord (rx_byte (wire s) 4) (rx_byte (wire s) 5)) \<and>
         (rotation s \<notin> {1, 2, 3} \<longrightarrow>
            x (data (snd (available h b s))) =
              spec_coord (rx_byte (wire s) 2) (rx_byte (wire s) 3) \<and>
            y (data (snd (available h b s))) =
              spec_coord (rx_byte (wire s) 4) (rx_byte (wire s) 5)) \<and>
         (rotation s = 0 \<and>
          map (rx_byte (wire s)) [0, 1, 2, 3, 4, 5] = [0x02, 0x01, 0x30, 0x50, 0x20, 0x10] \<longrightarrow>
            gestureID (data (snd (available h b s))) = 2 \<and>
            points (data (snd (available h b s))) = 1 \<and>
            event (data (snd (available h b s))) = 0 \<and>
            x (data (snd (available h b s))) = 80 \<and>
            y (data (snd (available h b s))) = 16)"
proof -
  note f = available_ack_fields[OF assms, of h b]
  have plain: "x (data (snd (available h b s))) =
                 spec_coord (rx_byte (wire s) 2) (rx_byte (wire s) 3) \<and>
               y (data (snd (available h b s))) =
                 spec_coord (rx_byte (wire s) 4) (rx_byte (wire s) 5)"
    if "rotation s \<notin> {1, 2, 3}"
    using f(4) rotatePoint_unrotated[OF that] by simp
  have fixture: "gestureID (data (snd (available h b s))) = 2 \<and>
      points (data (snd (available h b s))) = 1 \<and>
      event (data (snd (available h b s))) = 0 \<and>
      x (data (snd (available h b s))) = 80 \<and>
      y (data (snd (available h b s))) = 16"
    if r: "rotation s = 0"
      and m: "map (rx_byte (wire s)) [0, 1, 2, 3, 4, 5] = [0x02, 0x01, 0x30, 0x50, 0x20, 0x10]"
  proof -
    have "rotation s \<notin> {1, 2, 3}" using r by simp
    then show ?thesis
      using f(1-3) plain m r by (simp add: rotateGesture_def spec_coord_def)
  qed
  show ?thesis using f plain fixture by simp
qed

theorem poll_decodes_touch_block_witness:
  "event_available driver_fixture \<and> status (wire driver_fixture) 0 = 0 \<and>
   rotation driver_fixture = 0 \<and>
   map (rx_byte (wire driver_fixture)) [0, 1, 2, 3, 4, 5] = [0x02, 0x01, 0x30, 0x50, 0x20, 0x10] \<and>
   gestureID (data (snd (available header0 stack0 driver_fixture))) = 2 \<and>
   points (data (snd (available header0 stack0 driver_fixture))) = 1 \<and>
   event (data (snd (available header0 stack0 driver_fixture))) = 0 \<and>
   x (data (snd (available header0 stack0 driver_fixture))) = 80 \<and>
   y (data (snd (available header0 stack0 driver_fixture))) = 16"
proof -
  have flag: "event_available driver_fixture"
    by (simp add: driver_fixture_def)
  have ack: "status (wire driver_fixture) 0 = 0"
    by (simp add: driver_fixture_def wire_fixture_def)
  have rot: "rotation driver_fixture = 0"
    by (simp add: driver_fixture_def driver0_def)
  have bytes: "map (rx_byte (wire driver_fixture)) [0, 1, 2, 3, 4, 5] =
      [0x02, 0x01, 0x30, 0x50, 0x20, 0x10]"
    by (simp add: driver_fixture_def wire_fixture_def rx_byte_def)
  note decoded = poll_decodes_touch_block[OF flag ack, of header0 stack0]
  note at_fixture = decoded[THEN conjunct2, THEN conjunct2, THEN conjunct2, THEN conjunct2,
      THEN conjunct2, THEN mp, OF conjI[OF rot bytes]]
  show ?thesis
    using flag ack rot bytes at_fixture by blast
qed

text \<open>The claim as first stated gives the stored x as the decoded value for every
  block. Under rotation 1 on a 240 by 240 display the block 02 01 30 50 20 10, whose
  decoded x is 80 and decoded y is 16, is stored as x = 16 and y = 159.\<close>

theorem poll_stores_rotated_point:
  "event_available driver_fixture_rot1 \<and> status (wire driver_fixture_rot1) 0 = 0 \<and>
   spec_coord (rx_byte (wire driver_fixture_rot1) 2) (rx_byte (wire driver_fixture_rot1) 3) = 80 \<and>
   spec_coord (rx_byte (wire driver_fixture_rot1) 4) (rx_byte (wire driver_fixture_rot1) 5) = 16 \<and>
   x (data (snd (available header0 stack0 driver_fixture_rot1))) = 16 \<and>
   y (data (snd (available header0 stack0 driver_fixture_rot1))) = 159 \<and>
   x (data (snd (available header0 stack0 driver_fixture_rot1))) \<noteq>
     spec_coord (rx_byte (wire driver_fixture_rot1) 2) (rx_byte (wire driver_fixture_rot1) 3)"
proof -
  have flag: "event_available driver_fixture_rot1"
    by (simp add: driver_fixture_rot1_def)
  have ack: "status (wire driver_fixture_rot1) 0 = 0"
    by (simp add: driver_fixture_rot1_def wire_fixture_def)
  have cx: "spec_coord (rx_byte (wire driver_fixture_rot1) 2)
              (rx_byte (wire driver_fixture_rot1) 3) = 80"
    by (simp add: driver_fixture_rot1_def wire_fixture_def rx_byte_def spec_coord_def)
  have cy: "spec_coord (rx_byte (wire driver_fixture_rot1) 4)
              (rx_byte (wire driver_fixture_rot1) 5) = 16"
    by (simp add: driver_fixture_rot1_def wire_fixture_def rx_byte_def spec_coord_def)
  have "(x (data (snd (available header0 stack0 driver_fixture_rot1))),
         y (data (snd (available header0 stack0 driver_fixture_rot1)))) =
        rotatePoint driver_fixture_rot1 (80, 16)"
    using available_ack_fields(4)[OF flag ack, of header0 stack0] by (simp only: cx cy)
  also have "\<dots> = (16, 159)"
    by (simp add: rotatePoint_def driver_fixture_rot1_def)
  finally have xy: "x (data (snd (available header0 stack0 driver_fixture_rot1))) = 16"
    "y (data (snd (available header0 stack0 driver_fixture_rot1))) = 159"
    by simp_all
  show ?thesis using flag ack cx cy xy by simp
qed

text \<open>
  Claim C6, as amended. For every pair of bytes the decoded coordinate lies between 0
  and 4095 before rotation. The x and y that a poll stores do not exceed 4095 when the
  rotation is none of 1, 2, 3, or when the declared width and height both lie between 0
  and 4096; this holds whether or not the bus acknowledged.
\<close>

theorem stored_coordinates_bounded:
  assumes "event_available s"
    and "rotation s \<notin> {1, 2, 3} \<or>
         (0 \<le> sint (width s) \<and> sint (width s) \<le> 4096 \<and>
          0 \<le> sint (height s) \<and> sint (height s) \<le> 4096)"
  shows "0 \<le> sint (spec_coord hi lo) \<and> sint (spec_coord hi lo) \<le> 4095 \<and>
         sint (x (data (snd (available h b s)))) \<le> 4095 \<and>
         sint (y (data (snd (available h b s)))) \<le> 4095"
proof -
  obtain hx lx hy ly where
    xy: "(x (data (snd (available h b s))), y (data (snd (available h b s)))) =
           rotatePoint s (spec_coord hx lx, spec_coord hy ly)"
    using available_xy_source[OF assms(1), of h b] by blast
  have "sint (fst (rotatePoint s (spec_coord hx lx, spec_coord hy ly))) \<le> 4095 \<and>
        sint (snd (rotatePoint s (spec_coord hx lx, spec_coord hy ly))) \<le> 4095"
    using spec_coord_range[of hx lx] spec_coord_range[of hy ly] assms(2)
    by (intro rotatePoint_range) simp_all
  then have "sint (x (data (snd (available h b s)))) \<le> 4095 \<and>
             sint (y (data (snd (available h b s)))) \<le> 4095"
    unfolding xy[symmetric] by simp
  then show ?thesis using spec_coord_range[of hi lo] by simp
qed

theorem stored_coordinates_bounded_witness:
  "event_available driver_fixture_rot1 \<and>
   0 \<le> sint (width driver_fixture_rot1) \<and> sint (width driver_fixture_rot1) \<le> 4096 \<and>
   0 \<le> sint (height driver_fixture_rot1) \<and> sint (height driver_fixture_rot1) \<le> 4096 \<and>
   sint (x (data (snd (available header0 stack0 driver_fixture_rot1)))) \<le> 4095 \<and>
   sint (y (data (snd (available header0 stack0 driver_fixture_rot1)))) \<le> 4095"
proof -
  have flag: "event_available driver_fixture_rot1"
    by (simp add: driver_fixture_rot1_def)
  have size: "0 \<le> sint (width driver_fixture_rot1) \<and> sint (width driver_fixture_rot1) \<le> 4096 \<and>
      0 \<le> sint (height driver_fixture_rot1) \<and> sint (height driver_fixture_rot1) \<le> 4096"
    by (simp add: driver_fixture_rot1_def)
  show ?thesis
    using flag size stored_coordinates_bounded[OF flag disjI2[OF size], of 0 0 header0 stack0]
    by blast
qed

text \<open>The claim as first stated bounds the stored values for every display size.
  Under rotation 1 with a declared width of 5000 the all-zero block is stored with
  y = 4999.\<close>

theorem wide_display_exceeds_4095:
  "event_available driver_wide \<and>
   sint (y (data (snd (available header0 stack0 driver_wide)))) = 4999 \<and>
   \<not> sint (y (data (snd (available header0 stack0 driver_wide)))) \<le> 4095"
proof -
  have flag: "event_available driver_wide"
    by (simp add: driver_wide_def)
  have ack: "status (wire driver_wide) 0 = 0"
    by (simp add: driver_wide_def driver0_def wire0_def)
  have c: "spec_coord (rx_byte (wire driver_wide) i) (rx_byte (wire driver_wide) j) = 0" for i j
    by (simp add: driver_wide_def driver0_def wire0_def rx_byte_def spec_coord_def)
  have "(x (data (snd (available header0 stack0 driver_wide))),
         y (data (snd (available header0 stack0 driver_wide)))) =
        rotatePoint driver_wide (0, 0)"
    using available_ack_fields(4)[OF flag ack, of header0 stack0] by (simp only: c)
  also have "\<dots> = (0, 4999)"
    by (simp add: rotatePoint_def driver_wide_def)
  finally have "y (data (snd (available header0 stack0 driver_wide))) = 4999"
    by simp
  then show ?thesis using flag by simp
qed

section \<open>Rotating points\<close>

text \<open>
  Claim C5, as amended. With declared width W and height H, \<open>rotatePoint\<close> is the
  identity at rotation 0, maps (x, y) to (y, W - 1 - x) at rotation 1, to
  (W - 1 - x, H - 1 - y) at rotation 2 and to (H - 1 - y, x) at rotation 3. Rotation 2
  applied twice is the identity. Rotation 1 followed by rotation 3 maps (x, y) to
  (x + (H - W), y), and rotation 3 followed by rotation 1 maps it to (x, y + (W - H));
  both are the identity when W = H.
\<close>

theorem rotatePoint_compositions:
  "rotatePoint (s\<lparr>rotation := 0\<rparr>) (px, py) = (px, py) \<and>
   rotatePoint (s\<lparr>rotation := 1\<rparr>) (px, py) = (py, width s - 1 - px) \<and>
   rotatePoint (s\<lparr>rotation := 2\<rparr>) (px, py) = (width s - 1 - px, height s - 1 - py) \<and>
   rotatePoint (s\<lparr>rotation := 3\<rparr>) (px, py) = (height s - 1 - py, px) \<and>
   rotatePoint (s\<lparr>rotation := 2\<rparr>) (rotatePoint (s\<lparr>rotation := 2\<rparr>) (px, py)) = (px, py) \<and>
   rotatePoint (s\<lparr>rotation := 3\<rparr>) (rotatePoint (s\<lparr>rotation := 1\<rparr>) (px, py)) =
     (px + (height s - width s), py) \<and>
   rotatePoint (s\<lparr>rotation := 1\<rparr>) (rotatePoint (s\<lparr>rotation := 3\<rparr>) (px, py)) =
     (px, py + (width s - height s)) \<and>
   (width s = height s \<longrightarrow>
      rotatePoint (s\<lparr>rotation := 3\<rparr>) (rotatePoint (s\<lparr>rotation := 1\<rparr>) (px, py)) = (px, py) \<and>
      rotatePoint (s\<lparr>rotation := 1\<rparr>) (rotatePoint (s\<lparr>rotation := 3\<rparr>) (px, py)) = (px, py))"
  by (simp add: rotatePoint_def)

theorem rotatePoint_compositions_witness:
  "width (driver0\<lparr>width := 240, height := 240\<rparr>) = height (driver0\<lparr>width := 240, height := 240\<rparr>) \<and>
   rotatePoint (driver0\<lparr>width := 240, height := 240, rotation := 3\<rparr>)
     (rotatePoint (driver0\<lparr>width := 240, height := 240, rotation := 1\<rparr>) (80, 16)) = (80, 16) \<and>
   rotatePoint (driver0\<lparr>width := 240, height := 240, rotation := 1\<rparr>)
     (rotatePoint (driver0\<lparr>width := 240, height := 240, rotation := 3\<rparr>) (80, 16)) = (80, 16)"
proof -
  have square: "width (driver0\<lparr>width := 240, height := 240\<rparr>) =
      height (driver0\<lparr>width := 240, height := 240\<rparr>)"
    by simp
  note all = rotatePoint_compositions[of "driver0\<lparr>width := 240, height := 240\<rparr>" 80 16]
  note inverse = all[THEN conjunct2, THEN conjunct2, THEN conjunct2, THEN conjunct2,
      THEN conjunct2, THEN conjunct2, THEN conjunct2, THEN mp, OF square]
  show ?thesis using square inverse by blast
qed

text \<open>The claim as first stated makes rotations 1 and 3 mutual inverses for every
  declared size. On a display declared 240 wide and 280 high, rotation 1 followed by
  rotation 3 takes the point (0, 0) to (40, 0), and rotation 3 followed by rotation 1
  takes it to (0, - 40).\<close>

theorem quarter_turns_not_inverse_240x280:
  "rotatePoint (driver_240x280\<lparr>rotation := 3\<rparr>)
     (rotatePoint (driver_240x280\<lparr>rotation := 1\<rparr>) (0, 0)) = (40, 0) \<and>
   rotatePoint (driver_240x280\<lparr>rotation := 3\<rparr>)
     (rotatePoint (driver_240x280\<lparr>rotation := 1\<rparr>) (0, 0)) \<noteq> (0, 0) \<and>
   rotatePoint (driver_240x280\<lparr>rotation := 1\<rparr>)
     (rotatePoint (driver_240x280\<lparr>rotation := 3\<rparr>) (0, 0)) = (0, - 40) \<and>
   rotatePoint (driver_240x280\<lparr>rotation := 1\<rparr>)
     (rotatePoint (driver_240x280\<lparr>rotation := 3\<rparr>) (0, 0)) \<noteq> (0, 0)"
  by (simp add: rotatePoint_def driver_240x280_def)

section \<open>The stored rotation\<close>

text \<open>
  Claim C3, as amended. For every argument that is not negative \<open>setRotation\<close> stores
  the argument modulo 4, a value among 0, 1, 2, 3; \<open>setRotation 5\<close> stores 1. The
  constructor without a rotation argument stores 0, and the constructor with one stores
  a value among 0, 1, 2, 3 when it is given one. Whatever else is stored,
  \<open>rotateGesture\<close> and \<open>rotatePoint\<close> treat every rotation other than 1, 2, 3 as no
  rotation.
\<close>

theorem rotation_normalised:
  "(0 \<le> sint n \<longrightarrow>
      rotation (setRotation n s) = word_of_int (sint n mod 4) \<and>
      rotation (setRotation n s) \<in> {0, 1, 2, 3}) \<and>
   rotation (setRotation 5 s) = 1 \<and>
   rotation (CST816S_init sda0 scl0 rst0 irq0 w obj) = 0 \<and>
   (r \<in> {0, 1, 2, 3} \<longrightarrow>
      rotation (CST816S_init_rotation sda0 scl0 rst0 irq0 r w obj) \<in> {0, 1, 2, 3}) \<and>
   (rotation s \<notin> {1, 2, 3} \<longrightarrow> rotateGesture s g = g \<and> rotatePoint s p = p)"
proof -
  have nonneg: "rotation (setRotation n s) = word_of_int (sint n mod 4) \<and>
      rotation (setRotation n s) \<in> {0, 1, 2, 3}" if "0 \<le> sint n"
    using c_rem_4_nonneg[OF that] by (simp add: setRotation_def)
  have five: "rotation (setRotation 5 s) = 1"
    by (simp add: setRotation_def c_rem_def signed_modulo_int_def)
  have plain: "rotation (CST816S_init sda0 scl0 rst0 irq0 w obj) = 0"
    by (simp add: CST816S_init_def)
  have given: "rotation (CST816S_init_rotation sda0 scl0 rst0 irq0 r w obj) = r"
    by (simp add: CST816S_init_rotation_def)
  have guard: "rotateGesture s g = g \<and> rotatePoint s p = p" if "rotation s \<notin> {1, 2, 3}"
    using that by (simp add: rotateGesture_def rotatePoint_def)
  show ?thesis
    using nonneg five plain guard unfolding given by blast
qed

theorem rotation_normalised_witness:
  "0 \<le> sint (6 :: c_int) \<and>
   rotation (setRotation 6 driver0) = 2 \<and>
   (3 :: c_int) \<in> {0, 1, 2, 3} \<and>
   rotation (CST816S_init_rotation 21 22 5 4 3 wire0 driver0) \<in> {0, 1, 2, 3} \<and>
   rotation driver0 \<notin> {1, 2, 3} \<and>
   rotateGesture driver0 3 = 3 \<and> rotatePoint driver0 (80, 16) = (80, 16)"
proof -
  have idle: "rotation driver0 \<notin> {1, 2, 3}" by (simp add: driver0_def)
  have six: "0 \<le> sint (6 :: c_int)" by simp
  have three: "(3 :: c_int) \<in> {0, 1, 2, 3}" by simp
  note t = rotation_normalised[of 6 driver0 21 22 5 4 wire0 driver0 3 3 "(80, 16)"]
  have a: "rotation (setRotation 6 driver0) = word_of_int (sint (6 :: c_int) mod 4)"
    using t six by blast
  have b: "rotation (CST816S_init_rotation 21 22 5 4 3 wire0 driver0) \<in> {0, 1, 2, 3}"
    using t three by blast
  have c: "rotateGesture driver0 3 = 3 \<and> rotatePoint driver0 (80, 16) = (80, 16)"
    using t idle by blast
  show ?thesis using idle a b c by simp
qed

text \<open>The claim as first stated puts the stored rotation among 0, 1, 2, 3 after every
  call. \<open>setRotation\<close> with the argument - 1 stores - 1, since the remainder of C++
  takes the sign of the dividend, and the constructor given the rotation 5 stores 5.\<close>

theorem rotation_outside_domain:
  "rotation (setRotation (- 1) driver0) = - 1 \<and>
   rotation (setRotation (- 1) driver0) \<notin> {0, 1, 2, 3} \<and>
   rotation (setRotation (- 1) driver0) \<noteq> word_of_int (sint (- 1 :: c_int) mod 4) \<and>
   rotation (CST816S_init_rotation 21 22 5 4 5 wire0 driver0) = 5 \<and>
   rotation (CST816S_init_rotation 21 22 5 4 5 wire0 driver0) \<notin> {0, 1, 2, 3}"
  by (simp add: setRotation_def c_rem_def signed_modulo_int_def CST816S_init_rotation_def)

section \<open>A poll whose bus transaction fails\<close>

text \<open>
  Claim C8. A failed bus transaction is reported by the return value 255 of
  \<open>i2c_read\<close> and \<open>i2c_write\<close>, and \<open>read_touch\<close> drops that value. The claim
  concludes that a failed poll leaves every field of the touch event as it was. The
  model evaluated on a bus that does not acknowledge, with the local array holding
  0xFF in every byte, shows otherwise: \<open>i2c_read\<close> returns 255 and leaves the array
  alone, the poll still returns true and clears the flag, and gesture, point count,
  event kind, x and y are decoded from the array that was never filled; only the two
  version fields keep their values.
\<close>

theorem failed_poll_decodes_unfilled_array:
  "status (wire driver_nack) 0 \<noteq> 0 \<and>
   fst (i2c_read (ucast (CST816S_ADDRESS header0)) 0x01 stack_ff 6 (wire driver_nack)) = 255 \<and>
   fst (snd (i2c_read (ucast (CST816S_ADDRESS header0)) 0x01 stack_ff 6 (wire driver_nack))) =
     stack_ff \<and>
   fst (i2c_write (ucast (CST816S_ADDRESS header0)) 0xF9 stack_ff 1 (wire driver_nack)) = 255 \<and>
   fst (available header0 stack_ff driver_nack) \<and>
   \<not> event_available (snd (available header0 stack_ff driver_nack)) \<and>
   data driver_nack =
     \<lparr>gestureID = 0, points = 0, event = 0, x = 0, y = 0, version = 0,
      versionInfo = [0, 0, 0]\<rparr> \<and>
   data (snd (available header0 stack_ff driver_nack)) =
     \<lparr>gestureID = 0xFF, points = 0xFF, event = 3, x = 4095, y = 4095, version = 0,
      versionInfo = [0, 0, 0]\<rparr> \<and>
   data (snd (available header0 stack_ff driver_nack)) \<noteq> data driver_nack"
proof -
  have nack: "status (wire driver_nack) 0 \<noteq> 0"
    by (simp add: driver_nack_def wire_nack_def)
  note rd = i2c_read_nack[where w = "wire driver_nack" and reg = "0x01" and buf = stack_ff
      and len = 6 and addr = "ucast (CST816S_ADDRESS header0)", OF nack]
  have before: "data driver_nack =
     \<lparr>gestureID = 0, points = 0, event = 0, x = 0, y = 0, version = 0,
      versionInfo = [0, 0, 0]\<rparr>"
    by (simp add: driver_nack_def driver0_def)
  have rot: "rotation driver_nack = 0" and flag: "event_available driver_nack"
    by (simp_all add: driver_nack_def driver0_def)
  have after: "data (snd (available header0 stack_ff driver_nack)) =
     \<lparr>gestureID = 0xFF, points = 0xFF, event = 3, x = 4095, y = 4095, version = 0,
      versionInfo = [0, 0, 0]\<rparr>"
    using flag
    by (simp add: available_def read_touch_def rd[unfolded stack_ff_def] before rot
        rotateGesture_def rotatePoint_def stack_ff_def)
  have cleared: "\<not> event_available (snd (available header0 stack_ff driver_nack))"
    using flag by (simp add: available_def read_touch_event_available)
  show ?thesis
    using nack flag cleared before after by (simp add: rd available_def i2c_write_status)
qed

end
